theory Spec2Isabelle
  imports Complex_Main
begin

section \<open>JavaScript values\<close>

text \<open>
  Request bodies, query strings and socket payloads are JavaScript values.  A number
  received from a client is a finite double (JSON has no \<^verbatim>\<open>NaN\<close>), carried in \<open>JNum\<close>
  as the real it denotes.  The result of \<^verbatim>\<open>parseFloat\<close> or \<^verbatim>\<open>parseInt\<close> is a
  \<open>real option\<close> with \<open>None\<close> for \<^verbatim>\<open>NaN\<close>.  Arithmetic, which only the \<^verbatim>\<open>area\<close>
  virtual performs, is IEEE 754 double arithmetic (type \<open>double\<close> below).
\<close>

datatype jsval =
    JUndefined
  | JNull
  | JBool bool
  | JNum real
  | JStr string
  | JArr "jsval list"
  | JObj "(string \<times> jsval) list"

type_synonym jsnum = "real option"

text \<open>\<^verbatim>\<open>!v\<close> is \<open>\<not> truthy v\<close>.\<close>

fun truthy :: "jsval \<Rightarrow> bool" where
  "truthy JUndefined = False"
| "truthy JNull = False"
| "truthy (JBool b) = b"
| "truthy (JNum x) = (x \<noteq> 0)"
| "truthy (JStr s) = (s \<noteq> [])"
| "truthy (JArr xs) = True"
| "truthy (JObj kvs) = True"

text \<open>\<^verbatim>\<open>a || b\<close>\<close>

definition js_or :: "jsval \<Rightarrow> jsval \<Rightarrow> jsval" where
  "js_or a b = (if truthy a then a else b)"

text \<open>
  The errors the handlers can see.  \<open>error_name\<close> is the \<^verbatim>\<open>name\<close> property the
  \<^verbatim>\<open>catch\<close> blocks compare.  A Mongoose validation error carries one entry per failing
  path: the path and the kind of validator that failed.
\<close>

datatype validator_kind = required | enum | user_defined string

datatype js_error =
    TypeError
  | ValidationError "(string \<times> validator_kind) list"
  | CastError
  | MongoServerError

fun error_name :: "js_error \<Rightarrow> string" where
  "error_name TypeError = ''TypeError''"
| "error_name (ValidationError es) = ''ValidationError''"
| "error_name CastError = ''CastError''"
| "error_name MongoServerError = ''MongoServerError''"

text \<open>
  \<^verbatim>\<open>v.k\<close> for the property names read by the handlers (\<^verbatim>\<open>message\<close>, \<^verbatim>\<open>location\<close>):
  reading a property of \<^verbatim>\<open>undefined\<close> or \<^verbatim>\<open>null\<close> throws; an object yields the
  stored value or \<^verbatim>\<open>undefined\<close>; primitives and arrays have no such property.
\<close>

fun get_prop :: "jsval \<Rightarrow> string \<Rightarrow> js_error + jsval" where
  "get_prop JUndefined k = Inl TypeError"
| "get_prop JNull k = Inl TypeError"
| "get_prop (JObj kvs) k = Inr (case map_of kvs k of None \<Rightarrow> JUndefined | Some v \<Rightarrow> v)"
| "get_prop v k = Inr JUndefined"

text \<open>\<^verbatim>\<open>xs[i]\<close>: \<^verbatim>\<open>undefined\<close> (here \<open>None\<close>) outside the array.\<close>

definition js_index :: "'a list \<Rightarrow> nat \<Rightarrow> 'a option" where
  "js_index xs i = (if i < length xs then Some (xs ! i) else None)"

subsection \<open>IEEE 754 double arithmetic\<close>

text \<open>
  A JavaScript number: \<^verbatim>\<open>NaN\<close>, an infinity, or a finite double given by its real
  value.  The sign of a zero is not kept; no operation below tells \<open>-0\<close> from \<open>0\<close>.
\<close>

datatype double = NaN | PosInf | NegInf | Num real

text \<open>Rounding to the nearest integer, a tie going to the even one.\<close>

definition round_even :: "real \<Rightarrow> int" where
  "round_even q =
     (let f = \<lfloor>q\<rfloor>; d = q - of_int f
      in if d < 1 / 2 then f else if 1 / 2 < d then f + 1 else if even f then f else f + 1)"

text \<open>
  Rounding of a real to binary64, round-to-nearest-even, before the overflow test: 53
  significant bits at the binary exponent of the argument, and the fixed spacing
  \<open>2\<^sup>-\<^sup>1\<^sup>0\<^sup>7\<^sup>4\<close> below \<open>2\<^sup>-\<^sup>1\<^sup>0\<^sup>2\<^sup>2\<close> (subnormals).
\<close>

definition round_double :: "real \<Rightarrow> real" where
  "round_double x =
     (if x = 0 then 0
      else (let e = max \<lfloor>log 2 \<bar>x\<bar>\<rfloor> (- 1022); u = 2 powi (e - 52)
            in of_int (round_even (x / u)) * u))"

text \<open>The double an exact result becomes: an infinity once the rounded value reaches \<open>2\<^sup>1\<^sup>0\<^sup>2\<^sup>4\<close>.\<close>

definition to_double :: "real \<Rightarrow> double" where
  "to_double x =
     (let r = round_double x
      in if 2 ^ 1024 \<le> r then PosInf else if r \<le> - (2 ^ 1024) then NegInf else Num r)"

fun d_neg :: "double \<Rightarrow> double" where
  "d_neg NaN = NaN"
| "d_neg PosInf = NegInf"
| "d_neg NegInf = PosInf"
| "d_neg (Num x) = Num (- x)"

text \<open>\<^verbatim>\<open>a + b\<close>: infinities of opposite sign add to \<^verbatim>\<open>NaN\<close>.\<close>

fun d_add :: "double \<Rightarrow> double \<Rightarrow> double" where
  "d_add (Num x) (Num y) = to_double (x + y)"
| "d_add NaN b = NaN"
| "d_add a NaN = NaN"
| "d_add PosInf NegInf = NaN"
| "d_add NegInf PosInf = NaN"
| "d_add PosInf b = PosInf"
| "d_add NegInf b = NegInf"
| "d_add a PosInf = PosInf"
| "d_add a NegInf = NegInf"

text \<open>\<^verbatim>\<open>a - b\<close>\<close>

definition d_sub :: "double \<Rightarrow> double \<Rightarrow> double" where
  "d_sub a b = d_add a (d_neg b)"

fun negative :: "double \<Rightarrow> bool" where
  "negative NegInf = True"
| "negative (Num x) = (x < 0)"
| "negative a = False"

text \<open>\<^verbatim>\<open>a * b\<close>: an infinity times zero is \<^verbatim>\<open>NaN\<close>.\<close>

fun d_mul :: "double \<Rightarrow> double \<Rightarrow> double" where
  "d_mul (Num x) (Num y) = to_double (x * y)"
| "d_mul NaN b = NaN"
| "d_mul a NaN = NaN"
| "d_mul a b =
     (if a = Num 0 \<or> b = Num 0 then NaN
      else if negative a = negative b then PosInf else NegInf)"

text \<open>\<^verbatim>\<open>a / 2\<close>\<close>

fun d_half :: "double \<Rightarrow> double" where
  "d_half (Num x) = to_double (x / 2)"
| "d_half a = a"

fun Math_abs :: "double \<Rightarrow> double" where
  "Math_abs (Num x) = Num \<bar>x\<bar>"
| "Math_abs NegInf = PosInf"
| "Math_abs a = a"


section \<open>The Zone model (models/Zone.js)\<close>

text \<open>
  A GeoJSON position is an array of numbers, a ring an array of positions, and
  \<^verbatim>\<open>geometry.coordinates\<close> an array of rings (schema type \<^verbatim>\<open>[[[Number]]]\<close>).  Both
  fields of a geometry may be missing from a request.
\<close>

type_synonym position = "real list"
type_synonym ring = "position list"

record geojson =
  gtype :: "string option"
  coordinates :: "ring list option"

text \<open>
  The \<^verbatim>\<open>validate.validator\<close> of \<^verbatim>\<open>geometry.coordinates\<close>:
  \<^verbatim>\<open>if (!coords || !coords[0] || coords[0].length < 4) return false;\<close>
  then \<^verbatim>\<open>first[0] === last[0] && first[1] === last[1]\<close> on the first and the last
  position of the outer ring.  A missing coordinate is \<^verbatim>\<open>undefined\<close> on both sides of
  \<^verbatim>\<open>===\<close>.
\<close>

definition validator :: "ring list option \<Rightarrow> bool" where
  "validator coords =
     (case coords of
        None \<Rightarrow> False
      | Some cs \<Rightarrow>
          (case js_index cs 0 of
             None \<Rightarrow> False
           | Some r \<Rightarrow>
               if length r < 4 then False
               else (let first = r ! 0; last = r ! (length r - 1)
                     in js_index first 0 = js_index last 0 \<and> js_index first 1 = js_index last 1)))"

text \<open>
  The virtual \<^verbatim>\<open>area\<close> reads the arrays of a Mongoose document.  There an empty array
  under the \<^verbatim>\<open>2dsphere\<close>-indexed \<^verbatim>\<open>geometry\<close> is not kept: it reads as
  \<^verbatim>\<open>undefined\<close>, like an element outside the array.  \<open>doc_elem xs i\<close> is \<^verbatim>\<open>xs[i]\<close>
  for an array of arrays of a document.
\<close>

definition doc_elem :: "'a list list \<Rightarrow> nat \<Rightarrow> 'a list option" where
  "doc_elem xs i =
     (case js_index xs i of None \<Rightarrow> None | Some x \<Rightarrow> if x = [] then None else Some x)"

text \<open>\<^verbatim>\<open>p[k]\<close> used as a number: a missing coordinate is \<^verbatim>\<open>undefined\<close>, that is \<^verbatim>\<open>NaN\<close>.\<close>

definition num_at :: "position \<Rightarrow> nat \<Rightarrow> double" where
  "num_at p k = (case js_index p k of None \<Rightarrow> NaN | Some x \<Rightarrow> Num x)"

text \<open>
  \<open>area_loop coords i a\<close> is the \<^verbatim>\<open>for\<close> loop entered with counter \<open>i\<close> and accumulator
  \<open>a\<close>:
  \<^verbatim>\<open>area += (coords[i][0] * coords[i + 1][1]) - (coords[i + 1][0] * coords[i][1])\<close>
  while \<^verbatim>\<open>i < coords.length - 1\<close>.  Reading a coordinate of a position that is
  \<^verbatim>\<open>undefined\<close> throws.
\<close>

function area_loop :: "ring \<Rightarrow> nat \<Rightarrow> double \<Rightarrow> js_error + double" where
  "area_loop coords i a =
     (if int i < int (length coords) - 1
      then (case doc_elem coords i of
              None \<Rightarrow> Inl TypeError
            | Some p \<Rightarrow>
                (case doc_elem coords (i + 1) of
                   None \<Rightarrow> Inl TypeError
                 | Some q \<Rightarrow>
                     area_loop coords (i + 1)
                       (d_add a (d_sub (d_mul (num_at p 0) (num_at q 1))
                                       (d_mul (num_at q 0) (num_at p 1))))))
      else Inr a)"
  by pat_completeness auto
termination
  by (relation "measure (\<lambda>(coords, i, a). length coords - i)") auto

declare area_loop.simps [simp del]

text \<open>
  \<^verbatim>\<open>const coords = this.geometry.coordinates[0]\<close>; reading \<^verbatim>\<open>coords.length\<close> throws
  when there is no outer ring or the outer ring is empty.  The getter returns
  \<^verbatim>\<open>Math.abs(area / 2)\<close>.
\<close>

definition area :: "geojson \<Rightarrow> js_error + double" where
  "area g =
     (case coordinates g of
        None \<Rightarrow> Inl TypeError
      | Some cs \<Rightarrow>
          (case doc_elem cs 0 of
             None \<Rightarrow> Inl TypeError
           | Some coords \<Rightarrow>
               (case area_loop coords 0 (Num 0) of
                  Inl err \<Rightarrow> Inl err
                | Inr a \<Rightarrow> Inr (Math_abs (d_half a)))))"


definition shoelace :: "ring \<Rightarrow> real" where
  "shoelace ps =
     \<bar>(\<Sum>i < length ps - 1. (ps ! i ! 0) * (ps ! (i + 1) ! 1) - (ps ! (i + 1) ! 0) * (ps ! i ! 1)) / 2\<bar>"

text \<open>
  The same formula with every product, difference, sum and the halving rounded to a
  double, the terms added from left to right.
\<close>

definition double_term :: "ring \<Rightarrow> nat \<Rightarrow> double" where
  "double_term ps j =
     d_sub (d_mul (Num (ps ! j ! 0)) (Num (ps ! (j + 1) ! 1)))
           (d_mul (Num (ps ! (j + 1) ! 0)) (Num (ps ! j ! 1)))"

definition shoelace_double :: "ring \<Rightarrow> double" where
  "shoelace_double ps =
     Math_abs (d_half (foldl (\<lambda>a j. d_add a (double_term ps j)) (Num 0) [0 ..< length ps - 1]))"

text \<open>
  A stored zone document.  \<open>zone_id\<close> is the \<^verbatim>\<open>_id\<close> field; the timestamps are the ones the
  schema option \<^verbatim>\<open>timestamps: true\<close> adds.
\<close>

type_synonym oid = string

record zone =
  zone_id :: oid
  name :: string
  geometry :: geojson
  properties :: "(string \<times> jsval) list"
  createdAt :: nat
  updatedAt :: nat

text \<open>The collection: documents by \<^verbatim>\<open>_id\<close>, which the database keeps unique.\<close>

type_synonym store = "oid \<Rightarrow> zone option"

text \<open>\<^verbatim>\<open>String.prototype.trim\<close> on the ASCII white space characters.\<close>

definition is_space :: "char \<Rightarrow> bool" where
  "is_space c = (c \<in> set [CHR '' '', CHR 0x09, CHR 0x0A, CHR 0x0B, CHR 0x0C, CHR 0x0D])"

definition trim :: "string \<Rightarrow> string" where
  "trim s = rev (dropWhile is_space (rev (dropWhile is_space s)))"

section \<open>What the handlers take from outside the repository\<close>

text \<open>
  A geospatial filter handed to \<^verbatim>\<open>Zone.find\<close>: \<^verbatim>\<open>$near\<close> with a point
  \<^verbatim>\<open>[lng, lat]\<close> and \<^verbatim>\<open>$maxDistance\<close>, or \<^verbatim>\<open>$geoIntersects\<close> with a point.
\<close>

datatype geo_query =
    Near jsnum jsnum jsnum
  | GeoIntersects jsnum jsnum

text \<open>
  The built-ins and the database are parameters of the model: the ECMAScript functions
  \<^verbatim>\<open>parseFloat\<close> and \<^verbatim>\<open>parseInt\<close>, the cast of a string to an ObjectId (\<open>None\<close> when
  Mongoose raises \<^verbatim>\<open>CastError\<close>), whether the \<^verbatim>\<open>2dsphere\<close> index accepts a geometry on
  insert, and the evaluation of a geospatial \<^verbatim>\<open>Zone.find\<close> on the collection, which may
  raise.  \<open>isProduction\<close> is \<^verbatim>\<open>process.env.NODE_ENV === 'production'\<close>.
\<close>

record env =
  isProduction :: bool
  parseFloat :: "jsval \<Rightarrow> jsnum"
  parseInt :: "jsval \<Rightarrow> jsnum"
  castObjectId :: "string \<Rightarrow> oid option"
  geoIndexAccepts :: "geojson \<Rightarrow> bool"
  Zone_find :: "geo_query \<Rightarrow> store \<Rightarrow> js_error + zone list"

section \<open>Mongoose document operations\<close>

text \<open>
  \<^verbatim>\<open>new Zone({ name, geometry })\<close>: the \<^verbatim>\<open>trim\<close> setter of \<^verbatim>\<open>name\<close>, the default
  \<^verbatim>\<open>{}\<close> of \<^verbatim>\<open>properties\<close>, and a fresh \<^verbatim>\<open>_id\<close>.
\<close>

definition new_Zone :: "oid \<Rightarrow> string \<Rightarrow> geojson \<Rightarrow> zone" where
  "new_Zone nid n g =
     \<lparr>zone_id = nid, name = trim n, geometry = g, properties = [], createdAt = 0, updatedAt = 0\<rparr>"

text \<open>
  Validation as the schema declares it: \<^verbatim>\<open>name\<close> required; \<^verbatim>\<open>geometry.type\<close> required
  and in \<^verbatim>\<open>enum: ['Polygon']\<close>; \<^verbatim>\<open>geometry.coordinates\<close> checked by \<open>validator\<close>
  (absent coordinates fail it as well, by its \<^verbatim>\<open>!coords\<close> test).
\<close>

definition Zone_validate :: "zone \<Rightarrow> (string \<times> validator_kind) list" where
  "Zone_validate z =
     (if name z = [] then [(''name'', required)] else []) @
     (case gtype (geometry z) of
        None \<Rightarrow> [(''geometry.type'', required)]
      | Some t \<Rightarrow>
          if t = [] then [(''geometry.type'', required)]
          else if t = ''Polygon'' then []
          else [(''geometry.type'', enum)]) @
     (if validator (coordinates (geometry z)) then []
      else [(''geometry.coordinates'',
             user_defined ''Polygon must have at least 3 points and be closed'')])"

text \<open>
  \<^verbatim>\<open>doc.save()\<close>: validation first; then the insert, which the database refuses when the
  geospatial index rejects the geometry or the \<^verbatim>\<open>_id\<close> is taken.  A refused save stores
  nothing.
\<close>

definition Zone_save :: "env \<Rightarrow> nat \<Rightarrow> zone \<Rightarrow> store \<Rightarrow> js_error + (zone \<times> store)" where
  "Zone_save e now z s =
     (let errs = Zone_validate z in
      if errs \<noteq> [] then Inl (ValidationError errs)
      else if \<not> geoIndexAccepts e (geometry z) then Inl MongoServerError
      else if s (zone_id z) \<noteq> None then Inl MongoServerError
      else (let doc = z\<lparr>createdAt := now, updatedAt := now\<rparr>
            in Inr (doc, s(zone_id z \<mapsto> doc))))"

text \<open>
  \<^verbatim>\<open>Zone.findByIdAndDelete(id)\<close>: \<^verbatim>\<open>CastError\<close> when the id is no ObjectId; otherwise
  the document removed, or \<^verbatim>\<open>null\<close> when there is none.
\<close>

definition Zone_findByIdAndDelete :: "env \<Rightarrow> string \<Rightarrow> store \<Rightarrow> js_error + (zone option \<times> store)" where
  "Zone_findByIdAndDelete e i s =
     (case castObjectId e i of
        None \<Rightarrow> Inl CastError
      | Some k \<Rightarrow> Inr (s k, s(k := None)))"

section \<open>The HTTP handlers (routes/zoneRoutes.js)\<close>

text \<open>
  The JSON bodies the handlers send.  \<open>Failure m d\<close> is
  \<^verbatim>\<open>{ success: false, message: m, error: d }\<close> (\<open>d\<close> absent when \<open>None\<close>); every other
  body has \<^verbatim>\<open>success: true\<close>.  The \<^verbatim>\<open>error\<close> text is either the fixed
  \<^verbatim>\<open>'Internal server error'\<close> or the message of the error caught.
\<close>

datatype error_detail = Internal_server_error | Message_of js_error

datatype response_body =
    Failure string "error_detail option"
  | ZoneCreated string zone
  | ZoneList nat "zone list"
  | CheckResult bool "zone list" string
  | ZoneDeleted string zone

record response =
  status :: nat
  body :: response_body

fun success :: "response_body \<Rightarrow> bool" where
  "success (Failure m d) = False"
| "success b = True"

definition internal_error :: "env \<Rightarrow> string \<Rightarrow> js_error \<Rightarrow> response" where
  "internal_error e m err =
     \<lparr>status = 500,
      body = Failure m (Some (if isProduction e then Internal_server_error else Message_of err))\<rparr>"

text \<open>
  \<^verbatim>\<open>POST /api/zones\<close>.  Of the request body only \<^verbatim>\<open>name\<close> and \<^verbatim>\<open>geometry\<close> are read;
  \<open>body_properties\<close> stands for whatever \<^verbatim>\<open>properties\<close> the caller sent.  A geometry is
  an object (\<open>None\<close>: absent or falsy).  The fresh \<^verbatim>\<open>_id\<close> and the clock are arguments.
\<close>

record create_body =
  body_name :: jsval
  body_geometry :: "geojson option"
  body_properties :: jsval

definition post_zones :: "env \<Rightarrow> oid \<Rightarrow> nat \<Rightarrow> create_body \<Rightarrow> store \<Rightarrow> response \<times> store" where
  "post_zones e nid now b s =
     (if \<not> truthy (body_name b) \<or> body_geometry b = None
      then (\<lparr>status = 400, body = Failure ''Name and geometry are required'' None\<rparr>, s)
      else
        (case body_name b of
           JStr n \<Rightarrow>
             if length (trim n) = 0
             then (\<lparr>status = 400, body = Failure ''Invalid zone name'' None\<rparr>, s)
             else
               (case Zone_save e now (new_Zone nid (trim n) (the (body_geometry b))) s of
                  Inr (newZone, s') \<Rightarrow>
                    (\<lparr>status = 201, body = ZoneCreated ''Zone created successfully'' newZone\<rparr>, s')
                | Inl error \<Rightarrow>
                    if error_name error = ''ValidationError''
                    then (\<lparr>status = 400,
                           body = Failure ''Invalid zone data'' (Some (Message_of error))\<rparr>, s)
                    else (internal_error e ''Failed to create zone'' error, s))
         | _ \<Rightarrow> (\<lparr>status = 400, body = Failure ''Invalid zone name'' None\<rparr>, s)))"

text \<open>
  \<^verbatim>\<open>GET /api/zones/nearby\<close> reads \<^verbatim>\<open>lat\<close>, \<^verbatim>\<open>lng\<close> and \<^verbatim>\<open>maxDistance = 5000\<close> from
  the query string; \<^verbatim>\<open>POST /api/zones/check\<close> reads \<^verbatim>\<open>lat\<close> and \<^verbatim>\<open>lng\<close> from the
  body.  A parameter not sent is \<open>JUndefined\<close>.
\<close>

record check_body =
  lat :: jsval
  lng :: jsval

record nearby_query = check_body +
  maxDistance :: jsval

definition get_zones_nearby :: "env \<Rightarrow> nearby_query \<Rightarrow> store \<Rightarrow> response" where
  "get_zones_nearby e q s =
     (let maxDistance' = (if maxDistance q = JUndefined then JNum 5000 else maxDistance q) in
      if \<not> truthy (lat q) \<or> \<not> truthy (lng q)
      then \<lparr>status = 400, body = Failure ''Latitude and longitude are required'' None\<rparr>
      else
        (case Zone_find e (Near (parseFloat e (lng q)) (parseFloat e (lat q))
                                (parseInt e maxDistance')) s of
           Inr zones \<Rightarrow> \<lparr>status = 200, body = ZoneList (length zones) zones\<rparr>
         | Inl error \<Rightarrow> internal_error e ''Failed to find nearby zones'' error))"

text \<open>The template string \<^verbatim>\<open>Warning: Inside ${zones.length} danger zone(s)\<close>.\<close>

fun digits :: "nat \<Rightarrow> string" where
  "digits n = (if n < 10 then [char_of (48 + n)] else digits (n div 10) @ [char_of (48 + n mod 10)])"

definition post_zones_check :: "env \<Rightarrow> check_body \<Rightarrow> store \<Rightarrow> response" where
  "post_zones_check e b s =
     (if \<not> truthy (lat b) \<or> \<not> truthy (lng b)
      then \<lparr>status = 400, body = Failure ''Latitude and longitude are required'' None\<rparr>
      else
        (case Zone_find e (GeoIntersects (parseFloat e (lng b)) (parseFloat e (lat b))) s of
           Inr zones \<Rightarrow>
             (let isInDangerZone = (length zones > 0) in
              \<lparr>status = 200,
               body = CheckResult isInDangerZone zones
                        (if isInDangerZone
                         then ''Warning: Inside '' @ digits (length zones) @ '' danger zone(s)''
                         else ''Location is safe'')\<rparr>)
         | Inl error \<Rightarrow> internal_error e ''Failed to check location'' error))"

text \<open>\<^verbatim>\<open>DELETE /api/zones/:id\<close>\<close>

definition delete_zones_id :: "env \<Rightarrow> string \<Rightarrow> store \<Rightarrow> response \<times> store" where
  "delete_zones_id e i s =
     (case Zone_findByIdAndDelete e i s of
        Inr (deletedZone, s') \<Rightarrow>
          (case deletedZone of
             None \<Rightarrow> (\<lparr>status = 404, body = Failure ''Zone not found'' None\<rparr>, s')
           | Some z \<Rightarrow> (\<lparr>status = 200, body = ZoneDeleted ''Zone deleted successfully'' z\<rparr>, s'))
      | Inl error \<Rightarrow>
          if error_name error = ''CastError''
          then (\<lparr>status = 400, body = Failure ''Invalid zone ID format'' None\<rparr>, s)
          else (internal_error e ''Failed to delete zone'' error, s))"

section \<open>The Socket.IO relay (socket/socketHandler.js)\<close>

text \<open>
  The server's view of the channel: the sockets now connected, and for every socket the
  events the server has sent to it, oldest first.  \<^verbatim>\<open>io.emit\<close> sends to every connected
  socket.
\<close>

record alert =
  message :: jsval
  location :: jsval
  timestamp :: string
  severity :: string

record io_server =
  sockets :: "nat set"
  delivered :: "nat \<Rightarrow> (string \<times> alert) list"

definition io_emit :: "string \<Rightarrow> alert \<Rightarrow> io_server \<Rightarrow> io_server" where
  "io_emit ev a io =
     io\<lparr>delivered := (\<lambda>c. if c \<in> sockets io then delivered io c @ [(ev, a)] else delivered io c)\<rparr>"

text \<open>
  The listener for \<^verbatim>\<open>mobile_danger_alert\<close> registered on \<open>socket\<close>, called with the
  payload \<open>data\<close>; \<open>now\<close> is \<^verbatim>\<open>new Date().toISOString()\<close>.  Reading \<^verbatim>\<open>data.message\<close>
  throws when \<open>data\<close> is \<^verbatim>\<open>undefined\<close> or \<^verbatim>\<open>null\<close>, and then nothing is emitted.
\<close>

definition mobile_danger_alert :: "string \<Rightarrow> nat \<Rightarrow> jsval \<Rightarrow> io_server \<Rightarrow> js_error + io_server" where
  "mobile_danger_alert now socket data io =
     (case get_prop data ''message'' of
        Inl err \<Rightarrow> Inl err
      | Inr m \<Rightarrow>
          (case get_prop data ''location'' of
             Inl err \<Rightarrow> Inl err
           | Inr l \<Rightarrow>
               Inr (io_emit ''admin_alert''
                      \<lparr>message = js_or m (JStr ''Tourist entered Danger Zone''),
                       location = js_or l JNull,
                       timestamp = now,
                       severity = ''critical''\<rparr> io)))"


section \<open>A reference environment\<close>

text \<open>
  Concrete stand-ins for the parameters, used to run the handlers on concrete requests.
  \<open>parseFloat_string\<close> reads the longest decimal prefix after leading white space
  (sign, digits, fraction, exponent) and yields \<^verbatim>\<open>NaN\<close> when there is none; the literal
  \<^verbatim>\<open>Infinity\<close> is not a real and is mapped to \<open>None\<close> as well.
\<close>

definition is_digit :: "char \<Rightarrow> bool" where
  "is_digit c = (c \<in> set ''0123456789'')"

definition digit_val :: "char \<Rightarrow> nat" where
  "digit_val c = of_char c - 48"

definition nat_of_digits :: "string \<Rightarrow> nat" where
  "nat_of_digits ds = foldl (\<lambda>n c. 10 * n + digit_val c) 0 ds"

definition strip_sign :: "string \<Rightarrow> bool \<times> string" where
  "strip_sign s =
     (case s of
        [] \<Rightarrow> (False, [])
      | c # r \<Rightarrow> if c = CHR ''-'' then (True, r) else if c = CHR ''+'' then (False, r) else (False, s))"

definition exponent_part :: "string \<Rightarrow> int" where
  "exponent_part s =
     (case s of
        [] \<Rightarrow> 0
      | c # r \<Rightarrow>
          if c = CHR ''e'' \<or> c = CHR ''E''
          then (let (neg, t) = strip_sign r; ds = takeWhile is_digit t
                in if ds = [] then 0
                   else if neg then - int (nat_of_digits ds) else int (nat_of_digits ds))
          else 0)"

definition parseFloat_string :: "string \<Rightarrow> jsnum" where
  "parseFloat_string s =
     (let (neg, t) = strip_sign (dropWhile is_space s);
          ip = takeWhile is_digit t;
          r1 = dropWhile is_digit t;
          dot = (r1 \<noteq> [] \<and> hd r1 = CHR ''.'');
          fp = (if dot then takeWhile is_digit (tl r1) else []);
          r2 = (if dot then dropWhile is_digit (tl r1) else r1)
      in if ip = [] \<and> fp = [] then None
         else (let m = real (nat_of_digits ip) + real (nat_of_digits fp) / 10 ^ length fp;
                   v = m * 10 powi exponent_part r2
               in Some (if neg then - v else v)))"

text \<open>
  \<^verbatim>\<open>parseFloat\<close> converts its argument to a string first: a finite number reads back as
  itself, an array reads as its first element, and \<^verbatim>\<open>undefined\<close>, \<^verbatim>\<open>null\<close>, booleans
  and plain objects read as \<^verbatim>\<open>NaN\<close>.
\<close>

fun js_parseFloat :: "jsval \<Rightarrow> jsnum" where
  "js_parseFloat (JNum x) = Some x"
| "js_parseFloat (JStr s) = parseFloat_string s"
| "js_parseFloat (JArr (x # xs)) = js_parseFloat x"
| "js_parseFloat v = None"

text \<open>
  \<^verbatim>\<open>parseInt\<close> without a radix, on decimal strings: the longest prefix of sign and
  digits.  On a number it truncates towards zero (exact for the magnitudes that print
  without an exponent; the only number the handlers pass is the default \<open>5000\<close>).
\<close>

definition parseInt_string :: "string \<Rightarrow> jsnum" where
  "parseInt_string s =
     (let (neg, t) = strip_sign (dropWhile is_space s);
          ds = takeWhile is_digit t
      in if ds = [] then None
         else Some (if neg then - real (nat_of_digits ds) else real (nat_of_digits ds)))"

fun js_parseInt :: "jsval \<Rightarrow> jsnum" where
  "js_parseInt (JNum x) = Some (if 0 \<le> x then of_int \<lfloor>x\<rfloor> else of_int \<lceil>x\<rceil>)"
| "js_parseInt (JStr s) = parseInt_string s"
| "js_parseInt (JArr (x # xs)) = js_parseInt x"
| "js_parseInt v = None"

text \<open>An ObjectId in its string form: 24 hexadecimal digits, compared without case.\<close>

definition is_hex :: "char \<Rightarrow> bool" where
  "is_hex c = (c \<in> set ''0123456789abcdefABCDEF'')"

definition hex_lower :: "char \<Rightarrow> char" where
  "hex_lower c =
     (if c = CHR ''A'' then CHR ''a'' else if c = CHR ''B'' then CHR ''b''
      else if c = CHR ''C'' then CHR ''c'' else if c = CHR ''D'' then CHR ''d''
      else if c = CHR ''E'' then CHR ''e'' else if c = CHR ''F'' then CHR ''f'' else c)"

definition hex_ObjectId :: "string \<Rightarrow> oid option" where
  "hex_ObjectId s = (if length s = 24 \<and> list_all is_hex s then Some (map hex_lower s) else None)"

text \<open>
  A longitude and latitude the database accepts in a query: both numbers, within
  \<open>[-180, 180]\<close> and \<open>[-90, 90]\<close>.
\<close>

definition valid_point :: "jsnum \<Rightarrow> jsnum \<Rightarrow> bool" where
  "valid_point x y =
     (case (x, y) of
        (Some a, Some b) \<Rightarrow> - 180 \<le> a \<and> a \<le> 180 \<and> - 90 \<le> b \<and> b \<le> 90
      | _ \<Rightarrow> False)"

text \<open>
  The geometries the stand-in index accepts: every ring closed with at least four
  positions, every position a valid point.  (The real index refuses more, such as
  self-intersecting rings.)
\<close>

definition plain_polygon :: "geojson \<Rightarrow> bool" where
  "plain_polygon g =
     (case coordinates g of
        None \<Rightarrow> False
      | Some cs \<Rightarrow>
          cs \<noteq> [] \<and>
          list_all (\<lambda>r. 4 \<le> length r \<and> hd r = last r \<and>
                         list_all (\<lambda>p. length p = 2 \<and> valid_point (js_index p 0) (js_index p 1)) r) cs)"

text \<open>
  A database that matches no zone, as on a collection without zones near or around the
  point asked for; it raises on a point that is not valid and on a distance that is
  \<^verbatim>\<open>NaN\<close> or negative.
\<close>

definition no_match_find :: "geo_query \<Rightarrow> store \<Rightarrow> js_error + zone list" where
  "no_match_find q s =
     (case q of
        Near x y d \<Rightarrow>
          (case d of
             None \<Rightarrow> Inl MongoServerError
           | Some m \<Rightarrow> if valid_point x y \<and> 0 \<le> m then Inr [] else Inl MongoServerError)
      | GeoIntersects x y \<Rightarrow> if valid_point x y then Inr [] else Inl MongoServerError)"

text \<open>The square of the specification's scenario, \<^verbatim>\<open>[[0,0],[1,0],[1,1],[0,1],[0,0]]\<close>.\<close>

definition unit_square :: geojson where
  "unit_square =
     \<lparr>gtype = Some ''Polygon'', coordinates = Some [[[0, 0], [1, 0], [1, 1], [0, 1], [0, 0]]]\<rparr>"

definition ref_env :: env where
  "ref_env =
     \<lparr>isProduction = False,
      parseFloat = js_parseFloat,
      parseInt = js_parseInt,
      castObjectId = hex_ObjectId,
      geoIndexAccepts = plain_polygon,
      Zone_find = no_match_find\<rparr>"

text \<open>
  The stores the API can reach: from the empty collection by any sequence of create and
  delete requests.
\<close>

inductive reachable :: "env \<Rightarrow> store \<Rightarrow> bool" for e :: env where
  reachable_empty: "reachable e Map.empty"
| reachable_create: "reachable e s \<Longrightarrow> reachable e (snd (post_zones e nid now b s))"
| reachable_delete: "reachable e s \<Longrightarrow> reachable e (snd (delete_zones_id e i s))"

section \<open>Properties\<close>

subsection \<open>Exactly representable results\<close>

lemma round_even_of_int [simp]: "round_even (of_int n) = n"
  by (simp add: round_even_def)

lemma round_double_exact:
  assumes m: "\<bar>m\<bar> < 2 ^ 53" and j: "- 1074 \<le> j"
  shows "round_double (of_int m * 2 powi j) = of_int m * 2 powi j"
proof (cases "m = 0")
  case True
  then show ?thesis by (simp add: round_double_def)
next
  case False
  define x :: real where "x = of_int m * 2 powi j"
  have xpos: "0 < \<bar>x\<bar>" using False by (simp add: x_def)
  have "\<bar>x\<bar> = of_int \<bar>m\<bar> * 2 powi j"
    by (simp add: x_def abs_mult)
  also have "\<dots> < 2 ^ 53 * 2 powi j"
  proof -
    have "(of_int \<bar>m\<bar> :: real) < 2 ^ 53" using m by (metis of_int_less_numeral_power_cancel_iff)
    then show ?thesis by (simp add: zero_less_power_int)
  qed
  also have "\<dots> = 2 powr (53 + real_of_int j)"
    by (simp add: powr_add powr_realpow powr_real_of_int')
  finally have "log 2 \<bar>x\<bar> < 53 + real_of_int j"
    using xpos by (simp add: log_less_iff)
  then have e: "\<lfloor>log 2 \<bar>x\<bar>\<rfloor> - 52 \<le> j"
    by linarith
  define s where "s = max \<lfloor>log 2 \<bar>x\<bar>\<rfloor> (- 1022) - 52"
  have s: "s \<le> j" using e j by (simp add: s_def)
  have "x / 2 powi s = of_int m * 2 powi (j - s)"
    by (simp add: x_def power_int_diff)
  also have "\<dots> = of_int (m * 2 ^ nat (j - s))"
    using s by (simp add: power_int_def)
  finally have q: "x / 2 powi s = of_int (m * 2 ^ nat (j - s))" .
  have "round_double x = of_int (round_even (x / 2 powi s)) * 2 powi s"
    using xpos by (simp add: round_double_def s_def Let_def)
  also have "\<dots> = x / 2 powi s * 2 powi s"
    unfolding q round_even_of_int ..
  also have "\<dots> = x" by simp
  finally show ?thesis by (simp add: x_def)
qed








lemma to_double_zero [simp]: "to_double 0 = Num 0"
  by (simp add: to_double_def round_double_def)

lemma to_double_exact:
  assumes "\<bar>m\<bar> < 2 ^ 53" and "- 1074 \<le> j" and "j \<le> 970"
  shows "to_double (of_int m * 2 powi j) = Num (of_int m * 2 powi j)"
proof -
  have r: "round_double (of_int m * 2 powi j) = of_int m * 2 powi j"
    using assms(1,2) by (rule round_double_exact)
  have f1: "\<bar>real_of_int m\<bar> < 2 ^ 53"
    using assms(1) by (metis of_int_abs of_int_less_numeral_power_cancel_iff)
  have f2: "(2::real) powi j \<le> 2 powi 970"
    using assms(3) by (intro power_int_increasing) auto
  have f3: "0 \<le> \<bar>real_of_int m\<bar>" by simp
  have f4: "(0::real) < 2 powi j" by (simp add: zero_less_power_int)
  have "\<bar>real_of_int m\<bar> * 2 powi j < 2 ^ 53 * 2 powi 970"
    by (rule mult_less_le_imp_less[OF f1 f2 f3 f4])
  also have "(2::real) ^ 53 * 2 powi 970 = 2 ^ 1023"
    by (simp flip: power_add)
  finally have "\<bar>real_of_int m * 2 powi j\<bar> < 2 ^ 1023"
    by (simp add: abs_mult)
  moreover have "(2::real) ^ 1023 \<le> 2 ^ 1024" by simp
  ultimately have "real_of_int m * 2 powi j < 2 ^ 1024" "- (2 ^ 1024) < real_of_int m * 2 powi j"
    by linarith+
  then show ?thesis
    by (simp add: to_double_def r)
qed

subsection \<open>The area of a ring\<close>


lemma area_loop_fold:
  assumes "\<forall>p \<in> set ps. 2 \<le> length p" and "i \<le> length ps - 1"
  shows "area_loop ps i a = Inr (foldl (\<lambda>a j. d_add a (double_term ps j)) a [i ..< length ps - 1])"
  using assms
proof (induction ps i a rule: area_loop.induct)
  case (1 coords i a)
  show ?case
  proof (cases "int i < int (length coords) - 1")
    case True
    then have lt: "i < length coords - 1" and i_in: "i < length coords"
      and si_in: "Suc i < length coords"
      by auto
    let ?p = "coords ! i" and ?q = "coords ! Suc i"
    from "1.prems"(1) i_in si_in have len: "2 \<le> length ?p" "2 \<le> length ?q"
      by (auto simp: all_set_conv_all_nth)
    then have d: "doc_elem coords i = Some ?p" "doc_elem coords (i + 1) = Some ?q"
      using i_in si_in by (auto simp: doc_elem_def js_index_def)
    have nums: "num_at ?p 0 = Num (?p ! 0)" "num_at ?q 1 = Num (?q ! 1)"
      "num_at ?q 0 = Num (?q ! 0)" "num_at ?p 1 = Num (?p ! 1)"
      using len by (auto simp: num_at_def js_index_def)
    have t: "d_sub (d_mul (num_at ?p 0) (num_at ?q 1)) (d_mul (num_at ?q 0) (num_at ?p 1))
               = double_term coords i"
      unfolding nums by (simp add: double_term_def)
    have next_i: "i + 1 \<le> length coords - 1" using lt by simp
    have "area_loop coords i a = area_loop coords (i + 1) (d_add a (double_term coords i))"
      using True d t by (subst area_loop.simps) simp
    also have "\<dots> = Inr (foldl (\<lambda>a j. d_add a (double_term coords j))
                          (d_add a (double_term coords i)) [i + 1 ..< length coords - 1])"
      using "1.IH"[OF True d "1.prems"(1) next_i] unfolding t .
    also have "\<dots> = Inr (foldl (\<lambda>a j. d_add a (double_term coords j)) a [i ..< length coords - 1])"
      using lt by (simp add: upt_conv_Cons)
    finally show ?thesis .
  next
    case False
    with "1.prems"(2) have "i = length coords - 1" by auto
    then show ?thesis using False by (subst area_loop.simps) simp
  qed
qed

lemma area_shoelace_double:
  assumes "coordinates g = Some (ps # rest)" and "ps \<noteq> []" and "\<forall>p \<in> set ps. 2 \<le> length p"
  shows "area g = Inr (shoelace_double ps)"
  using assms area_loop_fold[of ps 0 "Num 0"]
  by (simp add: area_def doc_elem_def js_index_def shoelace_double_def)


lemma d_add_NaN [simp]: "d_add NaN b = NaN"
  by (cases b) simp_all



text \<open>
  Without overflow the result can still differ from the shoelace value by rounding: the
  square of \<open>2\<^sup>2\<^sup>7 + 1\<close> needs 55 bits.
\<close>

lemma to_double_rounds: "to_double (134217729 * 134217729) = Num 18014398777917440"
proof -
  let ?x = "18014398777917441 :: real"
  have "\<lfloor>log 2 \<bar>?x\<bar>\<rfloor> = 54"
    by (subst floor_log_eq_powr_iff) (simp_all add: powr_numeral)
  then have "round_double ?x = 18014398777917440"
    by (simp add: round_double_def round_even_def Let_def)
  then show ?thesis
    by (simp add: to_double_def)
qed


lemma to_double_rounded_square: "to_double 18014398777917441 = Num 18014398777917440"
  using to_double_rounds by simp

lemma to_double_square_kept: "to_double 18014398777917440 = Num 18014398777917440"
  using to_double_exact[of 67108865 28] by simp

lemma to_double_square_half: "to_double 9007199388958720 = Num 9007199388958720"
  using to_double_exact[of 67108865 27] by simp

lemma area_rounds:
  "area \<lparr>gtype = Some ''Polygon'',
         coordinates = Some [[[134217729, 0], [0, 134217729], [0, 0], [134217729, 0]]]\<rparr>
     = Inr (Num 9007199388958720)
   \<and> shoelace [[134217729, 0], [0, 134217729], [0, 0], [134217729, 0]] = 9007199388958720 + 1 / 2"
proof -
  let ?ps = "[[134217729, 0], [0, 134217729], [0, 0], [134217729, 0]] :: ring"
  have "shoelace_double ?ps = Num 9007199388958720"
    by (simp add: shoelace_double_def double_term_def d_sub_def upt_conv_Cons
        to_double_rounded_square to_double_square_kept to_double_square_half)
  moreover have "area \<lparr>gtype = Some ''Polygon'', coordinates = Some [?ps]\<rparr> = Inr (shoelace_double ?ps)"
    by (rule area_shoelace_double) simp_all
  moreover have "shoelace ?ps = 9007199388958720 + 1 / 2"
    by (simp add: shoelace_def lessThan_nat_numeral lessThan_Suc)
  ultimately show ?thesis by simp
qed



text \<open>The orientation of the ring does not change the shoelace value.\<close>

lemma area_clockwise: "shoelace [[0, 0], [0, 3], [4, 3], [4, 0], [0, 0]] = 12"
  by (simp add: shoelace_def lessThan_nat_numeral lessThan_Suc)

subsection \<open>Creating a zone\<close>

lemma validator_open_ring:
  assumes "length r < 4 \<or> js_index (hd r) 0 \<noteq> js_index (last r) 0
             \<or> js_index (hd r) 1 \<noteq> js_index (last r) 1"
  shows "\<not> validator (Some (r # rest))"
proof (cases "length r < 4")
  case True
  then show ?thesis by (simp add: validator_def js_index_def)
next
  case False
  then have "r \<noteq> []" by auto
  then have "r ! 0 = hd r" "r ! (length r - 1) = last r"
    by (simp_all add: hd_conv_nth last_conv_nth)
  with assms False show ?thesis
    by (auto simp: validator_def js_index_def Let_def)
qed

lemma validator_closed_ring:
  assumes "4 \<le> length r" "js_index (hd r) 0 = js_index (last r) 0"
    "js_index (hd r) 1 = js_index (last r) 1"
  shows "validator (Some (r # rest))"
proof -
  from assms(1) have "r \<noteq> []" by auto
  then have "r ! 0 = hd r" "r ! (length r - 1) = last r"
    by (simp_all add: hd_conv_nth last_conv_nth)
  with assms show ?thesis
    by (simp add: validator_def js_index_def Let_def)
qed

lemma Zone_save_invalid:
  assumes "\<not> validator (coordinates (geometry z))"
  shows "\<exists>errs. Zone_save e now z s = Inl (ValidationError errs)
            \<and> (''geometry.coordinates'',
                 user_defined ''Polygon must have at least 3 points and be closed'') \<in> set errs"
  using assms by (simp add: Zone_save_def Zone_validate_def Let_def)

lemma post_zones_invalid_geometry:
  assumes "body_geometry b = Some g" and "\<not> validator (coordinates g)"
  shows "status (fst (post_zones e nid now b s)) = 400
       \<and> \<not> success (body (fst (post_zones e nid now b s)))
       \<and> snd (post_zones e nid now b s) = s
       \<and> (\<forall>n. body_name b = JStr n \<and> trim n \<noteq> [] \<longrightarrow>
              (\<exists>errs. body (fst (post_zones e nid now b s)) =
                         Failure ''Invalid zone data'' (Some (Message_of (ValidationError errs)))))"
proof (cases "body_name b")
  case (JStr n)
  from Zone_save_invalid[of "new_Zone nid (trim n) g" e now s] assms(2)
  obtain errs where save: "Zone_save e now (new_Zone nid (trim n) g) s = Inl (ValidationError errs)"
    by (auto simp: new_Zone_def)
  have "trim n \<noteq> [] \<Longrightarrow> n \<noteq> []"
    by (auto simp: trim_def)
  with JStr assms(1) save show ?thesis
    by (auto simp: post_zones_def)
qed (simp_all add: post_zones_def)

text \<open>
  C1.  A creation request whose outer ring has fewer than four positions, or whose first
  position differs from its last in either coordinate (exact equality), is answered with
  status 400 and stores nothing; when the name is acceptable the failure is the
  \<^verbatim>\<open>ValidationError\<close> branch (\<^verbatim>\<open>'Invalid zone data'\<close>).  A closed ring of at least four
  positions passes the validator.
\<close>

theorem post_zones_rejects_bad_ring:
  "(body_geometry b = Some g \<and> coordinates g = Some (r # rest) \<and>
      (length r < 4 \<or> js_index (hd r) 0 \<noteq> js_index (last r) 0
         \<or> js_index (hd r) 1 \<noteq> js_index (last r) 1)
    \<longrightarrow> status (fst (post_zones e nid now b s)) = 400
        \<and> \<not> success (body (fst (post_zones e nid now b s)))
        \<and> snd (post_zones e nid now b s) = s
        \<and> (\<forall>n. body_name b = JStr n \<and> trim n \<noteq> [] \<longrightarrow>
              (\<exists>errs. body (fst (post_zones e nid now b s)) =
                         Failure ''Invalid zone data'' (Some (Message_of (ValidationError errs))))))
   \<and> (4 \<le> length r \<and> js_index (hd r) 0 = js_index (last r) 0
         \<and> js_index (hd r) 1 = js_index (last r) 1
      \<longrightarrow> validator (Some (r # rest)))"
proof (rule conjI; rule impI)
  assume a: "body_geometry b = Some g \<and> coordinates g = Some (r # rest) \<and>
      (length r < 4 \<or> js_index (hd r) 0 \<noteq> js_index (last r) 0
         \<or> js_index (hd r) 1 \<noteq> js_index (last r) 1)"
  then have "\<not> validator (coordinates g)"
    using validator_open_ring[of r rest] by simp
  with a show "status (fst (post_zones e nid now b s)) = 400
        \<and> \<not> success (body (fst (post_zones e nid now b s)))
        \<and> snd (post_zones e nid now b s) = s
        \<and> (\<forall>n. body_name b = JStr n \<and> trim n \<noteq> [] \<longrightarrow>
              (\<exists>errs. body (fst (post_zones e nid now b s)) =
                         Failure ''Invalid zone data'' (Some (Message_of (ValidationError errs)))))"
    using post_zones_invalid_geometry[of b g e nid now s] by blast
next
  assume "4 \<le> length r \<and> js_index (hd r) 0 = js_index (last r) 0
         \<and> js_index (hd r) 1 = js_index (last r) 1"
  then show "validator (Some (r # rest))"
    using validator_closed_ring by blast
qed

theorem post_zones_rejects_bad_ring_witness:
  "status (fst (post_zones ref_env ''65f1c0ffee0123456789abcd'' 1700
       \<lparr>body_name = JStr ''Zone A'',
        body_geometry = Some \<lparr>gtype = Some ''Polygon'',
                              coordinates = Some [[[0, 0], [1, 0], [1, 1], [0, 1]]]\<rparr>,
        body_properties = JUndefined\<rparr> Map.empty)) = 400
   \<and> snd (post_zones ref_env ''65f1c0ffee0123456789abcd'' 1700
       \<lparr>body_name = JStr ''Zone A'',
        body_geometry = Some \<lparr>gtype = Some ''Polygon'',
                              coordinates = Some [[[0, 0], [1, 0], [1, 1], [0, 1]]]\<rparr>,
        body_properties = JUndefined\<rparr> Map.empty) = Map.empty
   \<and> validator (Some [[[0, 0], [1, 0], [1, 1], [0, 1], [0, 0]]])"
  using post_zones_rejects_bad_ring
    [of "\<lparr>body_name = JStr ''Zone A'',
        body_geometry = Some \<lparr>gtype = Some ''Polygon'',
                              coordinates = Some [[[0, 0], [1, 0], [1, 1], [0, 1]]]\<rparr>,
        body_properties = JUndefined\<rparr>"
        "\<lparr>gtype = Some ''Polygon'', coordinates = Some [[[0, 0], [1, 0], [1, 1], [0, 1]]]\<rparr>"
        "[[0, 0], [1, 0], [1, 1], [0, 1]]" "[]" ref_env "''65f1c0ffee0123456789abcd''" 1700 Map.empty]
  by (simp add: js_index_def validator_def)

subsection \<open>Deleting a zone\<close>

text \<open>
  C5.  Deleting a stored zone twice: the first request answers 200 with the record and
  removes it, the second answers 404, and after the first the id is no longer in the store.
\<close>

theorem delete_twice:
  assumes "castObjectId e i = Some k" and "s k = Some z"
  shows "delete_zones_id e i s =
           (\<lparr>status = 200, body = ZoneDeleted ''Zone deleted successfully'' z\<rparr>, s(k := None))
       \<and> delete_zones_id e i (snd (delete_zones_id e i s)) =
           (\<lparr>status = 404, body = Failure ''Zone not found'' None\<rparr>, s(k := None))
       \<and> snd (delete_zones_id e i s) k = None"
  using assms by (simp add: delete_zones_id_def Zone_findByIdAndDelete_def)

theorem delete_twice_witness:
  "delete_zones_id ref_env ''65F1C0FFEE0123456789ABCD''
     [''65f1c0ffee0123456789abcd'' \<mapsto> new_Zone ''65f1c0ffee0123456789abcd'' ''Zone A'' unit_square]
   = (\<lparr>status = 200, body = ZoneDeleted ''Zone deleted successfully''
         (new_Zone ''65f1c0ffee0123456789abcd'' ''Zone A'' unit_square)\<rparr>,
      Map.empty)
   \<and> delete_zones_id ref_env ''65F1C0FFEE0123456789ABCD'' Map.empty
      = (\<lparr>status = 404, body = Failure ''Zone not found'' None\<rparr>, Map.empty)"
proof -
  let ?k = "''65f1c0ffee0123456789abcd''"
  let ?z = "new_Zone ?k ''Zone A'' unit_square"
  have c: "castObjectId ref_env ''65F1C0FFEE0123456789ABCD'' = Some ?k"
    by (simp add: ref_env_def hex_ObjectId_def is_hex_def hex_lower_def)
  have l: "[?k \<mapsto> ?z] ?k = Some ?z"
    by simp
  have e: "[?k \<mapsto> ?z](?k := None) = Map.empty"
    by simp
  from delete_twice [of ref_env "''65F1C0FFEE0123456789ABCD''" ?k "[?k \<mapsto> ?z]" ?z, OF c l]
  have first: "delete_zones_id ref_env ''65F1C0FFEE0123456789ABCD'' [?k \<mapsto> ?z] =
      (\<lparr>status = 200, body = ZoneDeleted ''Zone deleted successfully'' ?z\<rparr>, Map.empty)"
    and second: "delete_zones_id ref_env ''65F1C0FFEE0123456789ABCD''
        (snd (delete_zones_id ref_env ''65F1C0FFEE0123456789ABCD'' [?k \<mapsto> ?z])) =
      (\<lparr>status = 404, body = Failure ''Zone not found'' None\<rparr>, Map.empty)"
    unfolding e by blast+
  from second show ?thesis
    unfolding first by (simp add: first)
qed

text \<open>
  C7.  A delete request whose id is no ObjectId is answered 400 and leaves the store as
  it is; 404 is the answer exactly for an id that is an ObjectId of no stored zone.
\<close>

theorem delete_malformed_id:
  "(castObjectId e i = None \<longrightarrow>
      delete_zones_id e i s = (\<lparr>status = 400, body = Failure ''Invalid zone ID format'' None\<rparr>, s))
   \<and> (status (fst (delete_zones_id e i s)) = 400 \<longleftrightarrow> castObjectId e i = None)
   \<and> (status (fst (delete_zones_id e i s)) = 404 \<longleftrightarrow> (\<exists>k. castObjectId e i = Some k \<and> s k = None))"
  by (auto simp: delete_zones_id_def Zone_findByIdAndDelete_def split: option.splits)

theorem delete_malformed_id_witness:
  "delete_zones_id ref_env ''not-an-id'' Map.empty =
     (\<lparr>status = 400, body = Failure ''Invalid zone ID format'' None\<rparr>, Map.empty)
   \<and> status (fst (delete_zones_id ref_env ''65f1c0ffee0123456789abcd'' Map.empty)) = 404"
  using delete_malformed_id [of ref_env "''not-an-id''" Map.empty]
    delete_malformed_id [of ref_env "''65f1c0ffee0123456789abcd''" Map.empty]
  by (simp add: ref_env_def hex_ObjectId_def is_hex_def hex_lower_def)

subsection \<open>The contains-point check\<close>

text \<open>
  C10.  A check request whose \<^verbatim>\<open>lat\<close> or \<^verbatim>\<open>lng\<close> is the number 0 is answered 400 with
  the missing-coordinates message: the guard \<^verbatim>\<open>!lat || !lng\<close> takes every falsy value for
  an absent one.
\<close>

theorem check_rejects_zero:
  assumes "lat b = JNum 0 \<or> lng b = JNum 0"
  shows "post_zones_check e b s =
           \<lparr>status = 400, body = Failure ''Latitude and longitude are required'' None\<rparr>"
  using assms by (auto simp: post_zones_check_def)

theorem check_rejects_zero_witness:
  "post_zones_check ref_env \<lparr>lat = JNum 12.9716, lng = JNum 0\<rparr> Map.empty =
     \<lparr>status = 400, body = Failure ''Latitude and longitude are required'' None\<rparr>"
  using check_rejects_zero [of "\<lparr>lat = JNum 12.9716, lng = JNum 0\<rparr>" ref_env Map.empty]
  by simp

text \<open>
  When both coordinates are truthy and the database matches no zone, the answer is the
  safe one.
\<close>

lemma check_safe:
  assumes "truthy (lat b)" and "truthy (lng b)"
    and "Zone_find e (GeoIntersects (parseFloat e (lng b)) (parseFloat e (lat b))) s = Inr []"
  shows "post_zones_check e b s =
           \<lparr>status = 200, body = CheckResult False [] ''Location is safe''\<rparr>"
  using assms by (simp add: post_zones_check_def)

text \<open>
  C4.  The point \<open>(lng 5, lat 0)\<close> on the equator lies in no stored zone (the collection
  is empty and the database answers the containment query with the empty list), yet the
  check answers 400 and not the safe 200.
\<close>

theorem check_equator_point:
  "Zone_find ref_env (GeoIntersects (parseFloat ref_env (JNum 5)) (parseFloat ref_env (JNum 0)))
       Map.empty = Inr []
   \<and> post_zones_check ref_env \<lparr>lat = JNum 0, lng = JNum 5\<rparr> Map.empty =
       \<lparr>status = 400, body = Failure ''Latitude and longitude are required'' None\<rparr>"
  by (simp add: post_zones_check_def ref_env_def no_match_find_def valid_point_def)

theorem check_equator_point_witness:
  "status (post_zones_check ref_env \<lparr>lat = JNum 0, lng = JNum 5\<rparr> Map.empty) = 400"
  using check_equator_point by simp

subsection \<open>Properties of created zones\<close>

lemma Zone_save_stores:
  assumes "Zone_save e now z s = Inr (doc, s')"
  shows "doc = z\<lparr>createdAt := now, updatedAt := now\<rparr> \<and> s' = s(zone_id z \<mapsto> doc)"
  using assms by (auto simp: Zone_save_def Let_def split: if_splits)

lemma post_zones_created:
  assumes "post_zones e nid now b s = (r, s')" and "status r = 201"
  shows "\<exists>z. body r = ZoneCreated ''Zone created successfully'' z \<and> s' = s(nid \<mapsto> z)
            \<and> zone_id z = nid \<and> properties z = []"
proof (cases "body_name b")
  case (JStr n)
  with assms have ok: "truthy (body_name b)" "body_geometry b \<noteq> None" "trim n \<noteq> []"
    by (auto simp: post_zones_def split: if_splits)
  show ?thesis
  proof (cases "Zone_save e now (new_Zone nid (trim n) (the (body_geometry b))) s")
    case (Inl err)
    with assms JStr ok show ?thesis
      by (auto simp: post_zones_def internal_error_def split: if_splits)
  next
    case (Inr p)
    obtain doc t where p: "p = (doc, t)" by (cases p)
    from Zone_save_stores[OF Inr[unfolded p]]
    have doc: "doc = (new_Zone nid (trim n) (the (body_geometry b)))\<lparr>createdAt := now, updatedAt := now\<rparr>"
      and t: "t = s(nid \<mapsto> doc)"
      by (simp_all add: new_Zone_def)
    from assms JStr ok Inr p have "r = \<lparr>status = 201, body = ZoneCreated ''Zone created successfully'' doc\<rparr>"
      and "s' = t"
      by (auto simp: post_zones_def)
    with doc t show ?thesis by (simp add: new_Zone_def)
  qed
next
qed (use assms in \<open>auto simp: post_zones_def split: if_splits\<close>)

lemma post_zones_store:
  "snd (post_zones e nid now b s) = s \<or>
   (\<exists>z. snd (post_zones e nid now b s) = s(nid \<mapsto> z) \<and> properties z = [])"
proof (cases "status (fst (post_zones e nid now b s)) = 201")
  case True
  then show ?thesis
    using post_zones_created[of e nid now b s "fst (post_zones e nid now b s)" "snd (post_zones e nid now b s)"]
    by auto
next
  case False
  have "snd (post_zones e nid now b s) = s"
  proof (cases "body_name b")
    case (JStr n)
    show ?thesis
    proof (cases "Zone_save e now (new_Zone nid (trim n) (the (body_geometry b))) s")
      case (Inl err)
      with JStr show ?thesis by (simp add: post_zones_def)
    next
      case (Inr p)
      with JStr False show ?thesis
        by (cases p) (auto simp: post_zones_def split: if_splits)
    qed
  qed (simp_all add: post_zones_def)
  then show ?thesis by simp
qed

lemma delete_zones_id_store:
  "snd (delete_zones_id e i s) = s \<or> (\<exists>k. snd (delete_zones_id e i s) = s(k := None))"
  by (auto simp: delete_zones_id_def Zone_findByIdAndDelete_def split: option.splits)

lemma reachable_properties:
  assumes "reachable e s"
  shows "\<forall>k z. s k = Some z \<longrightarrow> properties z = []"
  using assms
proof (induction rule: reachable.induct)
  case reachable_empty
  show ?case by simp
next
  case (reachable_create s nid now b)
  from post_zones_store[of e nid now b s] reachable_create.IH show ?case
    by (auto split: if_splits)
next
  case (reachable_delete s i)
  from delete_zones_id_store[of e i s] reachable_delete.IH show ?case
    by (auto split: if_splits)
qed

text \<open>
  C9.  A zone the create handler stores has the empty \<^verbatim>\<open>properties\<close> map, whatever
  \<^verbatim>\<open>properties\<close> the request carried, and so has every zone of every store reachable
  through the API.
\<close>

theorem created_zone_has_no_properties:
  "(status (fst (post_zones e nid now b s)) = 201 \<longrightarrow>
      (\<exists>z. body (fst (post_zones e nid now b s)) = ZoneCreated ''Zone created successfully'' z
           \<and> snd (post_zones e nid now b s) nid = Some z \<and> properties z = []))
   \<and> (reachable e t \<and> t k = Some z' \<longrightarrow> properties z' = [])"
proof (intro conjI impI)
  assume "status (fst (post_zones e nid now b s)) = 201"
  then obtain z where "body (fst (post_zones e nid now b s)) = ZoneCreated ''Zone created successfully'' z"
    "snd (post_zones e nid now b s) = s(nid \<mapsto> z)" "properties z = []"
    using post_zones_created[of e nid now b s "fst (post_zones e nid now b s)" "snd (post_zones e nid now b s)"]
    by auto
  then show "\<exists>z. body (fst (post_zones e nid now b s)) = ZoneCreated ''Zone created successfully'' z
           \<and> snd (post_zones e nid now b s) nid = Some z \<and> properties z = []"
    by simp
next
  assume "reachable e t \<and> t k = Some z'"
  then show "properties z' = []"
    using reachable_properties by blast
qed

lemma post_zones_unit_square:
  "post_zones ref_env ''65f1c0ffee0123456789abcd'' 1700
     \<lparr>body_name = JStr '' Zone A'', body_geometry = Some unit_square,
      body_properties = JObj [(''risk'', JStr ''high'')]\<rparr> Map.empty =
   (\<lparr>status = 201, body = ZoneCreated ''Zone created successfully''
        \<lparr>zone_id = ''65f1c0ffee0123456789abcd'', name = ''Zone A'', geometry = unit_square,
         properties = [], createdAt = 1700, updatedAt = 1700\<rparr>\<rparr>,
    [''65f1c0ffee0123456789abcd'' \<mapsto>
        \<lparr>zone_id = ''65f1c0ffee0123456789abcd'', name = ''Zone A'', geometry = unit_square,
         properties = [], createdAt = 1700, updatedAt = 1700\<rparr>])"
  by (simp add: post_zones_def Zone_save_def Zone_validate_def new_Zone_def trim_def is_space_def
      validator_def js_index_def unit_square_def ref_env_def plain_polygon_def valid_point_def Let_def)

theorem created_zone_has_no_properties_witness:
  "properties (the (snd (post_zones ref_env ''65f1c0ffee0123456789abcd'' 1700
     \<lparr>body_name = JStr '' Zone A'', body_geometry = Some unit_square,
      body_properties = JObj [(''risk'', JStr ''high'')]\<rparr> Map.empty) ''65f1c0ffee0123456789abcd'')) = []
   \<and> reachable ref_env (snd (post_zones ref_env ''65f1c0ffee0123456789abcd'' 1700
     \<lparr>body_name = JStr '' Zone A'', body_geometry = Some unit_square,
      body_properties = JObj [(''risk'', JStr ''high'')]\<rparr> Map.empty))"
proof -
  let ?b = "\<lparr>body_name = JStr '' Zone A'', body_geometry = Some unit_square,
      body_properties = JObj [(''risk'', JStr ''high'')]\<rparr>"
  let ?s = "snd (post_zones ref_env ''65f1c0ffee0123456789abcd'' 1700 ?b Map.empty)"
  have r: "reachable ref_env ?s"
    by (rule reachable_create) (rule reachable_empty)
  have "?s ''65f1c0ffee0123456789abcd'' = Some (the (?s ''65f1c0ffee0123456789abcd''))"
    by (simp add: post_zones_unit_square)
  with r created_zone_has_no_properties
    [of ref_env "''65f1c0ffee0123456789abcd''" 1700 ?b Map.empty ?s "''65f1c0ffee0123456789abcd''"
        "the (?s ''65f1c0ffee0123456789abcd'')"]
  show ?thesis by blast
qed

subsection \<open>The alert relay\<close>

text \<open>What the listener does with a payload that is neither \<^verbatim>\<open>undefined\<close> nor \<^verbatim>\<open>null\<close>.\<close>

lemma mobile_danger_alert_emits:
  assumes "data \<noteq> JUndefined" and "data \<noteq> JNull"
  shows "\<exists>m l. get_prop data ''message'' = Inr m \<and> get_prop data ''location'' = Inr l \<and>
           mobile_danger_alert now socket data io =
             Inr (io_emit ''admin_alert''
                    \<lparr>message = js_or m (JStr ''Tourist entered Danger Zone''),
                     location = js_or l JNull, timestamp = now, severity = ''critical''\<rparr> io)"
  using assms by (cases data) (simp_all add: mobile_danger_alert_def)

text \<open>
  C6.  A client that emits \<^verbatim>\<open>mobile_danger_alert\<close> without a payload (or with
  \<^verbatim>\<open>null\<close>) makes the listener throw: no event is broadcast.
\<close>

theorem alert_without_payload_throws:
  "mobile_danger_alert now socket JUndefined io = Inl TypeError
   \<and> mobile_danger_alert now socket JNull io = Inl TypeError"
  by (simp add: mobile_danger_alert_def)

theorem alert_without_payload_throws_witness:
  "mobile_danger_alert ''2026-02-27T10:30:00.000Z'' 1 JUndefined
     \<lparr>sockets = {1, 2}, delivered = (\<lambda>c. [])\<rparr> = Inl TypeError"
  using alert_without_payload_throws
    [of "''2026-02-27T10:30:00.000Z''" 1 "\<lparr>sockets = {1, 2}, delivered = (\<lambda>c. [])\<rparr>"]
  by simp

text \<open>
  C2, as stated, fails: with sockets 1 and 2 connected, an alert emitted by socket 1 is
  delivered to socket 1 as well.
\<close>

theorem emitter_receives_alert:
  "(case mobile_danger_alert ''2026-02-27T10:30:00.000Z'' 1
           (JObj [(''message'', JStr ''test''), (''location'', JObj [(''lat'', JNum 1), (''lng'', JNum 1)])])
           \<lparr>sockets = {1, 2}, delivered = (\<lambda>c. [])\<rparr> of
      Inl err \<Rightarrow> []
    | Inr io' \<Rightarrow> delivered io' 1) =
   [(''admin_alert'',
     \<lparr>message = JStr ''test'', location = JObj [(''lat'', JNum 1), (''lng'', JNum 1)],
      timestamp = ''2026-02-27T10:30:00.000Z'', severity = ''critical''\<rparr>)]"
  by (simp add: mobile_danger_alert_def io_emit_def js_or_def)

text \<open>
  C2, amended.  For an alert with a payload, one \<^verbatim>\<open>admin_alert\<close> event is appended to
  what every connected socket has received, the emitting socket included; a socket that
  is not connected receives nothing, and the set of connected sockets is unchanged.
\<close>

theorem alert_fans_out_to_all:
  assumes "data \<noteq> JUndefined" and "data \<noteq> JNull"
  shows "\<exists>io' a. mobile_danger_alert now socket data io = Inr io'
           \<and> sockets io' = sockets io
           \<and> timestamp a = now \<and> severity a = ''critical''
           \<and> (\<forall>c. delivered io' c =
                  (if c \<in> sockets io then delivered io c @ [(''admin_alert'', a)]
                   else delivered io c))
           \<and> (socket \<in> sockets io \<longrightarrow>
                  delivered io' socket = delivered io socket @ [(''admin_alert'', a)])"
proof -
  from mobile_danger_alert_emits[OF assms, of now socket io]
  obtain m l where emitted: "mobile_danger_alert now socket data io =
             Inr (io_emit ''admin_alert''
                    \<lparr>message = js_or m (JStr ''Tourist entered Danger Zone''),
                     location = js_or l JNull, timestamp = now, severity = ''critical''\<rparr> io)"
    by blast
  define a where "a = \<lparr>message = js_or m (JStr ''Tourist entered Danger Zone''),
                     location = js_or l JNull, timestamp = now, severity = ''critical''\<rparr>"
  have "mobile_danger_alert now socket data io = Inr (io_emit ''admin_alert'' a io)"
    using emitted by (simp add: a_def)
  moreover have "sockets (io_emit ''admin_alert'' a io) = sockets io"
    by (simp add: io_emit_def)
  moreover have "timestamp a = now \<and> severity a = ''critical''"
    by (simp add: a_def)
  moreover have "\<forall>c. delivered (io_emit ''admin_alert'' a io) c =
                  (if c \<in> sockets io then delivered io c @ [(''admin_alert'', a)]
                   else delivered io c)"
    by (simp add: io_emit_def)
  ultimately show ?thesis
    by (intro exI[of _ "io_emit ''admin_alert'' a io"] exI[of _ a]) simp
qed

theorem alert_fans_out_to_all_witness:
  "(\<exists>io'. mobile_danger_alert ''2026-02-27T10:30:00.000Z'' 1 (JObj [(''message'', JStr ''test'')])
             \<lparr>sockets = {1, 2}, delivered = (\<lambda>c. [])\<rparr> = Inr io'
         \<and> length (delivered io' 1) = 1 \<and> length (delivered io' 2) = 1
         \<and> length (delivered io' 3) = 0)"
  using alert_fans_out_to_all
    [of "JObj [(''message'', JStr ''test'')]" "''2026-02-27T10:30:00.000Z''" 1
        "\<lparr>sockets = {1, 2}, delivered = (\<lambda>c. [])\<rparr>"]
  by auto

subsection \<open>The nearby query\<close>

lemmas parse_defs =
  parseFloat_string_def parseInt_string_def strip_sign_def is_space_def is_digit_def
  nat_of_digits_def digit_val_def exponent_part_def

text \<open>
  C3, as stated, fails: a request with the non-numeric \<^verbatim>\<open>lat=abc\<close> passes the guard,
  the query is run with \<^verbatim>\<open>NaN\<close>, the database raises, and the answer is 500, not 400.
\<close>

theorem nearby_non_numeric_is_500:
  "status (get_zones_nearby ref_env
             \<lparr>lat = JStr ''abc'', lng = JStr ''77.5946'', maxDistance = JUndefined\<rparr> Map.empty)
   = 500"
  by (simp add: get_zones_nearby_def ref_env_def no_match_find_def valid_point_def
      internal_error_def parse_defs)

text \<open>
  C3, amended.  The nearby query answers 400 exactly when \<^verbatim>\<open>lat\<close> or \<^verbatim>\<open>lng\<close> is
  absent or empty (falsy).  Otherwise, numeric or not, it runs the \<^verbatim>\<open>$near\<close> query at
  \<^verbatim>\<open>[parseFloat(lng), parseFloat(lat)]\<close> with \<^verbatim>\<open>parseInt(maxDistance)\<close> (default 5000):
  the answer is 200 with the zones found, possibly none, when the database answers, and
  500 when it raises.
\<close>

theorem nearby_400_iff_missing:
  "(status (get_zones_nearby e q s) = 400 \<longleftrightarrow> \<not> truthy (lat q) \<or> \<not> truthy (lng q))
   \<and> (truthy (lat q) \<and> truthy (lng q) \<longrightarrow>
        (\<forall>zones. Zone_find e (Near (parseFloat e (lng q)) (parseFloat e (lat q))
                    (parseInt e (if maxDistance q = JUndefined then JNum 5000 else maxDistance q))) s
                  = Inr zones
           \<longrightarrow> get_zones_nearby e q s = \<lparr>status = 200, body = ZoneList (length zones) zones\<rparr>)
      \<and> (\<forall>err. Zone_find e (Near (parseFloat e (lng q)) (parseFloat e (lat q))
                    (parseInt e (if maxDistance q = JUndefined then JNum 5000 else maxDistance q))) s
                  = Inl err
           \<longrightarrow> status (get_zones_nearby e q s) = 500))"
  by (auto simp: get_zones_nearby_def internal_error_def Let_def split: sum.splits)

theorem nearby_400_iff_missing_witness:
  "get_zones_nearby ref_env
     \<lparr>lat = JStr ''12.9716'', lng = JStr ''77.5946'', maxDistance = JUndefined\<rparr> Map.empty
     = \<lparr>status = 200, body = ZoneList 0 []\<rparr>
   \<and> status (get_zones_nearby ref_env
     \<lparr>lat = JUndefined, lng = JStr ''77.5946'', maxDistance = JStr ''100''\<rparr> Map.empty) = 400"
proof -
  have "Zone_find ref_env
          (Near (parseFloat ref_env (JStr ''77.5946'')) (parseFloat ref_env (JStr ''12.9716''))
                (parseInt ref_env (JNum 5000))) Map.empty = Inr []"
    by (simp add: ref_env_def no_match_find_def valid_point_def parse_defs)
  with nearby_400_iff_missing
    [of ref_env "\<lparr>lat = JStr ''12.9716'', lng = JStr ''77.5946'', maxDistance = JUndefined\<rparr>" Map.empty]
    nearby_400_iff_missing
    [of ref_env "\<lparr>lat = JUndefined, lng = JStr ''77.5946'', maxDistance = JStr ''100''\<rparr>" Map.empty]
  show ?thesis by simp
qed

text \<open>
  In a query string the coordinate \<^verbatim>\<open>0\<close> arrives as the string \<^verbatim>\<open>"0"\<close>, which is
  truthy: the nearby query at the origin is answered.
\<close>

lemma nearby_accepts_zero_string:
  "get_zones_nearby ref_env \<lparr>lat = JStr ''0'', lng = JStr ''0'', maxDistance = JStr ''250''\<rparr>
     Map.empty = \<lparr>status = 200, body = ZoneList 0 []\<rparr>"
  by (simp add: get_zones_nearby_def ref_env_def no_match_find_def valid_point_def parse_defs)

end
